theory Spec2Isabelle
  imports Main
begin

section \<open>Provisioning tasks of the infrastructure automation backend\<close>

text \<open>
  The development embeds \<^verbatim>\<open>celery_app/tasks/terraform_tasks.py\<close> as it is listed,
  function by function, in the walkthrough of the repository's analysis document
  (section \<^emph>\<open>Terraform Tasks Code\<close>). Python strings are modelled as \<^typ>\<open>string\<close>, one
  \<^typ>\<open>char\<close> per Python character; the integer request id is an \<^typ>\<open>int\<close>.
  The leading underscore of the private helpers is dropped (\<^verbatim>\<open>_run_terraform\<close> is
  \<open>run_terraform\<close>), every other name is the source's.

  The tasks act on three things outside themselves, and each is explicit state here: the
  table of requests, the file system, and the external tool. Every function takes the
  state and returns the new one. An exception is a value: a function that can raise
  returns \<open>Inl\<close> of the exception, or \<open>Some\<close> of it when it returns nothing else,
  together with the state reached when it was raised. Three kinds of operations can
  raise: a commit to the database, the creation of a directory or the writing of a file,
  and the start of the tool process. A query is a read of the committed rows and does not
  raise. The tool is a black box that answers each call; what it writes into its working
  directory is not tracked, and it does not remove the directories this code creates.
\<close>

subsection \<open>Text helpers: newline, \<^verbatim>\<open>str(int)\<close>, \<^verbatim>\<open>' '.join\<close>, \<^verbatim>\<open>os.path.join\<close>\<close>

definition nl :: string where
  "nl = [CHR 0x0A]"

definition digit_char :: "nat \<Rightarrow> char" where
  "digit_char d = char_of (48 + d)"

fun str_nat :: "nat \<Rightarrow> string" where
  "str_nat n = (if n < 10 then [digit_char n] else str_nat (n div 10) @ [digit_char (n mod 10)])"

declare str_nat.simps [simp del]

text \<open>Python's \<^verbatim>\<open>str\<close> of an integer: decimal digits, a minus sign for negatives.\<close>

definition str_int :: "int \<Rightarrow> string" where
  "str_int i = (if i < 0 then CHR ''-'' # str_nat (nat (- i)) else str_nat (nat i))"

text \<open>\<^verbatim>\<open>sep.join(xs)\<close>.\<close>

fun join_with :: "string \<Rightarrow> string list \<Rightarrow> string" where
  "join_with sep [] = []"
| "join_with sep [x] = x"
| "join_with sep (x # y # ys) = x @ sep @ join_with sep (y # ys)"

text \<open>
  One step of POSIX \<^verbatim>\<open>os.path.join\<close>: an absolute second component replaces the
  first; otherwise a separator is inserted unless the first is empty or already ends
  with one.
\<close>

definition path_join :: "string \<Rightarrow> string \<Rightarrow> string" where
  "path_join a b =
     (if b \<noteq> [] \<and> hd b = CHR ''/'' then b
      else if a = [] \<or> last a = CHR ''/'' then a @ b
      else a @ ''/'' @ b)"

subsection \<open>Data model\<close>

text \<open>The exception value; only \<^verbatim>\<open>str(e)\<close> is ever used by the code.\<close>

datatype exn = Exception string

fun str_exn :: "exn \<Rightarrow> string" where
  "str_exn (Exception m) = m"

text \<open>
  A row of \<^verbatim>\<open>resource_requests\<close>, with the columns the tasks read or write. The
  \<^verbatim>\<open>config\<close> column is a JSON object or \<^verbatim>\<open>None\<close>; \<^verbatim>\<open>admin_notes\<close> is nullable.
\<close>

record ResourceRequest =
  request_id :: int
  name :: string
  resource_type :: string
  config :: "(string \<rightharpoonup> string) option"
  status :: string
  admin_notes :: "string option"

text \<open>
  The dictionaries the provisioners return have one of two shapes,
  \<^verbatim>\<open>{"success": True, "output": s}\<close> and \<^verbatim>\<open>{"success": False, "error": s}\<close>.
\<close>

datatype result = Success string | Failure string

fun success :: "result \<Rightarrow> bool" where
  "success (Success _) = True"
| "success (Failure _) = False"

text \<open>\<^verbatim>\<open>result.get('output', '')\<close> and \<^verbatim>\<open>result.get('error', '')\<close>.\<close>

fun get_output :: "result \<Rightarrow> string" where
  "get_output (Success s) = s"
| "get_output (Failure _) = []"

fun get_error :: "result \<Rightarrow> string" where
  "get_error (Failure s) = s"
| "get_error (Success _) = []"

text \<open>
  What \<^verbatim>\<open>subprocess.run\<close> can do: complete with a return code and the captured
  stdout and stderr, raise \<^verbatim>\<open>TimeoutExpired\<close>, raise \<^verbatim>\<open>FileNotFoundError\<close>, or
  raise any other exception.
\<close>

datatype proc_outcome =
    Completed int string string
  | TimeoutExpired
  | FileNotFoundError
  | OtherError exn

text \<open>
  The part of the machine outside the database: the directories and files this code
  creates or removes, the list of \<^verbatim>\<open>subprocess.run\<close> calls made so far (working
  directory and argument vector), and the lines given to the logger.
\<close>

record host =
  dirs :: "string set"
  files :: "string \<rightharpoonup> string"
  invocations :: "(string \<times> string list) list"
  log :: "string list"

text \<open>
  The whole state: the committed rows of the table, the number of commits issued so
  far, and the host.
\<close>

record world =
  rows :: "int \<rightharpoonup> ResourceRequest"
  commits :: nat
  host :: host

text \<open>
  The environment of a run. \<open>BASE_DIR\<close> and \<open>DRY_RUN_MODE\<close> are the module's globals
  (the module sets \<^verbatim>\<open>DRY_RUN_MODE = True\<close>). \<open>terraform\<close> is the external tool as a
  black box: its outcome may depend on the calls made before, the working directory and
  the arguments. \<open>fs_fault\<close> tells for which paths creating or writing raises;
  \<open>commit_fault\<close> tells which commits, counted from the start, raise.

  The two provisioners whose bodies the listing does not contain are parameters, and so
  are the texts the listing replaces by an ellipsis: \<open>provider_tf_other\<close> (the provider
  configuration for a provider other than AWS), \<open>main_tf_elided\<close> and \<open>tfvars_elided\<close>
  (the remaining lines of the two generated files), \<open>format_outputs\<close>
  (\<^verbatim>\<open>json.loads\<close> followed by the formatting of the outputs, \<open>None\<close> when it raises),
  \<open>output_fallback\<close> (what the workflow returns when the outputs cannot be read) and
  \<open>destroy_failure_note\<close> (the text the destroy task appends to the notes when the tool
  fails).
\<close>

record env =
  BASE_DIR :: string
  DRY_RUN_MODE :: bool
  terraform :: "(string \<times> string list) list \<Rightarrow> string \<Rightarrow> string list \<Rightarrow> proc_outcome"
  fs_fault :: "string \<Rightarrow> exn option"
  commit_fault :: "nat \<Rightarrow> exn option"
  provision_s3 :: "host \<Rightarrow> ResourceRequest \<Rightarrow> (exn + result) \<times> host"
  provision_k8s_namespace :: "host \<Rightarrow> ResourceRequest \<Rightarrow> (exn + result) \<times> host"
  provider_tf_other :: "string \<Rightarrow> string"
  main_tf_elided :: string
  tfvars_elided :: "ResourceRequest \<Rightarrow> string"
  format_outputs :: "string \<Rightarrow> string option"
  output_fallback :: result
  destroy_failure_note :: "string \<Rightarrow> string"

subsection \<open>Paths and the workspace\<close>

definition TERRAFORM_MODULES_PATH :: "env \<Rightarrow> string" where
  "TERRAFORM_MODULES_PATH e = path_join (path_join (BASE_DIR e) ''terraform'') ''modules''"

definition TERRAFORM_WORKSPACES_PATH :: "env \<Rightarrow> string" where
  "TERRAFORM_WORKSPACES_PATH e = path_join (path_join (BASE_DIR e) ''terraform'') ''workspaces''"

text \<open>\<^verbatim>\<open>os.path.join(TERRAFORM_WORKSPACES_PATH, f"request-{request_id}")\<close>.\<close>

definition workspace_path :: "env \<Rightarrow> int \<Rightarrow> string" where
  "workspace_path e rid = path_join (TERRAFORM_WORKSPACES_PATH e) (''request-'' @ str_int rid)"

text \<open>\<^verbatim>\<open>os.makedirs(p, exist_ok=True)\<close>: raises, or leaves the directory in place.\<close>

definition makedirs :: "env \<Rightarrow> host \<Rightarrow> string \<Rightarrow> exn option \<times> host" where
  "makedirs e h p =
     (case fs_fault e p of
        Some x \<Rightarrow> (Some x, h)
      | None \<Rightarrow> (None, h\<lparr>dirs := insert p (dirs h)\<rparr>))"

definition create_workspace :: "env \<Rightarrow> host \<Rightarrow> int \<Rightarrow> string \<Rightarrow> (exn + string) \<times> host" where
  "create_workspace e h rid rtype =
     (let workspace_dir = workspace_path e rid in
      case makedirs e h workspace_dir of
        (Some x, h') \<Rightarrow> (Inl x, h')
      | (None, h') \<Rightarrow> (Inr workspace_dir, h'))"


text \<open>\<^verbatim>\<open>with open(p, "w") as f: f.write(content)\<close>.\<close>

definition write_file :: "env \<Rightarrow> host \<Rightarrow> string \<Rightarrow> string \<Rightarrow> exn option \<times> host" where
  "write_file e h p content =
     (case fs_fault e p of
        Some x \<Rightarrow> (Some x, h)
      | None \<Rightarrow> (None, h\<lparr>files := (files h)(p \<mapsto> content)\<rparr>))"




subsection \<open>Secrets\<close>

definition ascii_lowercase :: string where
  "ascii_lowercase = ''abcdefghijklmnopqrstuvwxyz''"

definition ascii_uppercase :: string where
  "ascii_uppercase = ''ABCDEFGHIJKLMNOPQRSTUVWXYZ''"

definition ascii_letters :: string where
  "ascii_letters = ascii_lowercase @ ascii_uppercase"

definition digits :: string where
  "digits = ''0123456789''"

definition alphabet :: string where
  "alphabet = ascii_letters @ digits"

text \<open>
  \<^verbatim>\<open>secrets.choice(seq)\<close> is \<^verbatim>\<open>seq[randbelow(len(seq))]\<close>; the entropy source is the
  parameter \<open>rand\<close>, whose \<open>k\<close>-th draw is reduced below the length of the sequence.
\<close>

definition choice :: "(nat \<Rightarrow> nat) \<Rightarrow> nat \<Rightarrow> string \<Rightarrow> char" where
  "choice rand k seq = seq ! (rand k mod length seq)"

text \<open>\<^verbatim>\<open>''.join(secrets.choice(alphabet) for _ in range(length))\<close>; the default length is 16.\<close>

definition generate_password :: "(nat \<Rightarrow> nat) \<Rightarrow> nat \<Rightarrow> string" where
  "generate_password rand len = map (\<lambda>k. choice rand k alphabet) [0..<len]"

definition default_password_length :: nat where
  "default_password_length = 16"

subsection \<open>Running the tool\<close>

text \<open>
  \<^verbatim>\<open>_run_terraform\<close>: one \<^verbatim>\<open>subprocess.run(["terraform"] + command, cwd=workspace_dir,
  capture_output=True, text=True, timeout=600)\<close>. The two exceptions the function
  catches become failure results; any other exception leaves the function.
\<close>

definition run_terraform :: "env \<Rightarrow> host \<Rightarrow> string \<Rightarrow> string list \<Rightarrow> (exn + result) \<times> host" where
  "run_terraform e h workspace_dir command =
     (let h1 = h\<lparr>log := log h @ [''Running: terraform '' @ join_with '' '' command]\<rparr>;
          h2 = h1\<lparr>invocations := invocations h1 @ [(workspace_dir, ''terraform'' # command)]\<rparr>
      in case terraform e (invocations h) workspace_dir (''terraform'' # command) of
           Completed returncode out err \<Rightarrow>
             if returncode = 0
             then (Inr (Success out), h2\<lparr>log := log h2 @ [''Terraform command succeeded'']\<rparr>)
             else (Inr (Failure (if err \<noteq> [] then err else out)),
                   h2\<lparr>log := log h2 @ [''Terraform command failed: '' @ err]\<rparr>)
         | TimeoutExpired \<Rightarrow>
             (Inr (Failure ''Terraform command timed out after 10 minutes''), h2)
         | FileNotFoundError \<Rightarrow>
             (Inr (Failure ''Terraform CLI not found. Please install Terraform.''), h2)
         | OtherError x \<Rightarrow> (Inl x, h2))"

definition py_bool :: "bool \<Rightarrow> string" where
  "py_bool b = (if b then ''True'' else ''False'')"

text \<open>
  \<^verbatim>\<open>_run_terraform_workflow\<close>: init, plan, then either the dry-run return or apply and
  output. The listing stops inside the \<^verbatim>\<open>try\<close> that parses the outputs; what the
  function returns when the outputs cannot be read or parsed is \<open>output_fallback\<close>.
\<close>

definition run_terraform_workflow :: "env \<Rightarrow> host \<Rightarrow> string \<Rightarrow> (exn + result) \<times> host" where
  "run_terraform_workflow e h workspace_dir =
     (let h0 = h\<lparr>log := log h @ [''Running Terraform in '' @ workspace_dir @ '' (DRY_RUN=''
                                     @ py_bool (DRY_RUN_MODE e) @ '')'']\<rparr> in
      case run_terraform e h0 workspace_dir [''init'', ''-no-color''] of
        (Inl x, h1) \<Rightarrow> (Inl x, h1)
      | (Inr init_result, h1) \<Rightarrow>
          if \<not> success init_result
          then (Inr (Failure (''Terraform init failed:'' @ nl @ get_error init_result)), h1)
          else
            (case run_terraform e h1 workspace_dir [''plan'', ''-no-color'', ''-out=tfplan''] of
               (Inl x, h2) \<Rightarrow> (Inl x, h2)
             | (Inr plan_result, h2) \<Rightarrow>
                 if \<not> success plan_result
                 then (Inr (Failure (''Terraform plan failed:'' @ nl @ get_error plan_result)), h2)
                 else if DRY_RUN_MODE e
                 then (Inr (Success (''[DRY RUN] Plan completed successfully.'' @ nl
                                      @ ''Workspace: '' @ workspace_dir @ nl @ nl
                                      @ ''Plan output:'' @ nl
                                      @ take 2000 (get_output plan_result))),
                       h2\<lparr>log := log h2 @ [''DRY RUN MODE: Skipping terraform apply'']\<rparr>)
                 else
                   (case run_terraform e h2 workspace_dir
                           [''apply'', ''-no-color'', ''-auto-approve'', ''tfplan''] of
                      (Inl x, h3) \<Rightarrow> (Inl x, h3)
                    | (Inr apply_result, h3) \<Rightarrow>
                        if \<not> success apply_result
                        then (Inr (Failure (''Terraform apply failed:'' @ nl
                                             @ get_error apply_result)), h3)
                        else
                          (case run_terraform e h3 workspace_dir [''output'', ''-json''] of
                             (Inl x, h4) \<Rightarrow> (Inl x, h4)
                           | (Inr output_result, h4) \<Rightarrow>
                               if success output_result
                               then (case format_outputs e (get_output output_result) of
                                       Some output_str \<Rightarrow> (Inr (Success output_str), h4)
                                     | None \<Rightarrow> (Inr (output_fallback e), h4))
                               else (Inr (output_fallback e), h4)))))"

subsection \<open>Generating the configuration\<close>

definition dq :: string where
  "dq = [CHR 0x22]"

text \<open>The text of a Python triple-quoted literal: each line is followed by a newline.\<close>

definition text_lines :: "string list \<Rightarrow> string" where
  "text_lines ls = concat (map (\<lambda>l. l @ nl) ls)"

definition aws_provider_tf :: string where
  "aws_provider_tf = text_lines
     ['''',
      ''terraform {'',
      ''  required_providers {'',
      ''    aws = {'',
      ''      source  = '' @ dq @ ''hashicorp/aws'' @ dq,
      ''      version = '' @ dq @ ''~> 5.0'' @ dq,
      ''    }'',
      ''  }'',
      ''}'',
      '''',
      ''provider '' @ dq @ ''aws'' @ dq @ '' {'',
      ''  region = var.aws_region'',
      ''}'',
      '''',
      ''variable '' @ dq @ ''aws_region'' @ dq @ '' {'',
      ''  type    = string'',
      ''  default = '' @ dq @ ''us-east-1'' @ dq,
      ''}'']"

text \<open>
  The visible part of \<^verbatim>\<open>_write_provider_config\<close>: the choice of the text. The listing
  shows the AWS text and stops; the text for another provider is \<open>provider_tf_other\<close>.
\<close>

definition provider_tf_text :: "env \<Rightarrow> string \<Rightarrow> string" where
  "provider_tf_text e provider =
     (if provider = ''aws'' then aws_provider_tf else provider_tf_other e provider)"

text \<open>
  Modelled from the spec: the end of \<^verbatim>\<open>_write_provider_config\<close>, which the listing
  does not show, writes the chosen text as the provider-configuration file of the
  workspace, \<^verbatim>\<open>provider.tf\<close>.
\<close>

definition write_provider_config :: "env \<Rightarrow> host \<Rightarrow> string \<Rightarrow> string \<Rightarrow> exn option \<times> host" where
  "write_provider_config e h workspace_dir provider =
     write_file e h (path_join workspace_dir ''provider.tf'') (provider_tf_text e provider)"

text \<open>\<^verbatim>\<open>request.config or {}\<close> and \<^verbatim>\<open>config.get(key, default)\<close>.\<close>

definition config_or_empty :: "ResourceRequest \<Rightarrow> (string \<rightharpoonup> string)" where
  "config_or_empty request = (case config request of None \<Rightarrow> Map.empty | Some c \<Rightarrow> c)"

definition dict_get :: "(string \<rightharpoonup> string) \<Rightarrow> string \<Rightarrow> string \<Rightarrow> string" where
  "dict_get d k dflt = (case d k of None \<Rightarrow> dflt | Some v \<Rightarrow> v)"

definition database_main_tf :: "env \<Rightarrow> string" where
  "database_main_tf e =
     text_lines
       ['''',
        ''module '' @ dq @ ''database'' @ dq @ '' {'',
        ''  source = '' @ dq @ TERRAFORM_MODULES_PATH e @ ''/database'' @ dq,
        '''',
        ''  name             = var.name'',
        ''  engine           = var.engine'']
     @ main_tf_elided e
     @ text_lines [''}'']"

definition database_tfvars :: "env \<Rightarrow> ResourceRequest \<Rightarrow> string \<Rightarrow> string" where
  "database_tfvars e request engine =
     text_lines
       ['''',
        ''name           = '' @ dq @ name request @ dq,
        ''engine         = '' @ dq @ engine @ dq]
     @ tfvars_elided e request"

text \<open>The table from the friendly sizes to the instance classes.\<close>

definition size_mapping :: "string \<rightharpoonup> string" where
  "size_mapping = [''small'' \<mapsto> ''db.t3.micro'', ''medium'' \<mapsto> ''db.t3.small'',
                   ''large'' \<mapsto> ''db.t3.medium'', ''xlarge'' \<mapsto> ''db.t3.large'']"

text \<open>
  \<^verbatim>\<open>_provision_database\<close>. The listing reads the size and shows the table; the lookup
  in the table, the call of \<^verbatim>\<open>_generate_password\<close> and the lines of the variable file
  that carry their values are replaced by an ellipsis and are part of \<open>tfvars_elided\<close>.
\<close>

definition provision_database :: "env \<Rightarrow> host \<Rightarrow> ResourceRequest \<Rightarrow> (exn + result) \<times> host" where
  "provision_database e h request =
     (let config = config_or_empty request in
      case create_workspace e h (request_id request) ''database'' of
        (Inl x, h1) \<Rightarrow> (Inl x, h1)
      | (Inr workspace_dir, h1) \<Rightarrow>
          (case write_provider_config e h1 workspace_dir ''aws'' of
             (Some x, h2) \<Rightarrow> (Inl x, h2)
           | (None, h2) \<Rightarrow>
               (let engine = dict_get config ''engine'' ''postgres'';
                    size = dict_get config ''size'' ''small'';
                    main_tf = database_main_tf e;
                    tfvars = database_tfvars e request engine
                in case write_file e h2 (path_join workspace_dir ''main.tf'') main_tf of
                     (Some x, h3) \<Rightarrow> (Inl x, h3)
                   | (None, h3) \<Rightarrow>
                       (case write_file e h3 (path_join workspace_dir ''terraform.tfvars'') tfvars of
                          (Some x, h4) \<Rightarrow> (Inl x, h4)
                        | (None, h4) \<Rightarrow> run_terraform_workflow e h4 workspace_dir))))"

subsection \<open>The router\<close>

definition provision_by_type :: "env \<Rightarrow> host \<Rightarrow> ResourceRequest \<Rightarrow> (exn + result) \<times> host" where
  "provision_by_type e h request =
     (let rtype = resource_type request in
      if rtype = ''database'' then provision_database e h request
      else if rtype = ''s3'' then provision_s3 e h request
      else if rtype = ''k8s_namespace'' then provision_k8s_namespace e h request
      else (Inr (Failure (''Unknown resource type: '' @ rtype)), h))"

subsection \<open>The store\<close>

text \<open>
  \<^verbatim>\<open>db.commit()\<close> after assignments to columns of the loaded row: an
  \<^verbatim>\<open>UPDATE resource_requests SET ... WHERE id = ?\<close> of the assigned columns, keyed by the
  id alone. A commit that raises changes no row.
\<close>

definition commit :: "env \<Rightarrow> world \<Rightarrow> int \<Rightarrow> (ResourceRequest \<Rightarrow> ResourceRequest) \<Rightarrow> exn option \<times> world" where
  "commit e w rid assign =
     (case commit_fault e (commits w) of
        Some x \<Rightarrow> (Some x, w\<lparr>commits := Suc (commits w)\<rparr>)
      | None \<Rightarrow> (None, w\<lparr>rows := (rows w)(rid := map_option assign (rows w rid)),
                           commits := Suc (commits w)\<rparr>))"

definition logger :: "world \<Rightarrow> string \<Rightarrow> world" where
  "logger w line = w\<lparr>host := (host w)\<lparr>log := log (host w) @ [line]\<rparr>\<rparr>"

text \<open>\<^verbatim>\<open>request.admin_notes or ''\<close>.\<close>

definition notes_or_empty :: "ResourceRequest \<Rightarrow> string" where
  "notes_or_empty request = (case admin_notes request of None \<Rightarrow> [] | Some s \<Rightarrow> s)"

subsection \<open>The provisioning task\<close>

text \<open>
  What a task run gives back to the worker: a returned dictionary with its
  \<^verbatim>\<open>status\<close> and \<^verbatim>\<open>message\<close>, the return at the end of the normal path, the
  exception raised by \<^verbatim>\<open>self.retry(exc=e, countdown=n)\<close>, or another exception.
\<close>

datatype task_outcome =
    Returned string string
  | Finished result
  | Retry exn nat
  | Raised exn

text \<open>
  \<^verbatim>\<open>provision_resource\<close> is written in three parts, cut where the source talks to the
  store, so that runs of two workers can be interleaved between the read of the row and
  the write of the new status.

  The first part is the query and the two early returns.
\<close>

datatype checked = Return task_outcome | Proceed ResourceRequest

definition provision_resource_check :: "env \<Rightarrow> world \<Rightarrow> int \<Rightarrow> checked \<times> world" where
  "provision_resource_check e w rid =
     (case rows w rid of
        None \<Rightarrow>
          (Return (Returned ''error'' ''Request not found''),
           logger w (''Request '' @ str_int rid @ '' not found''))
      | Some request \<Rightarrow>
          if status request \<noteq> ''approved''
          then (Return (Returned ''skipped'' ''Request not approved''),
                logger w (''Request '' @ str_int rid @ '' is not approved, skipping''))
          else (Proceed request, w))"

text \<open>
  Modelled from the spec: the lines of \<^verbatim>\<open>provision_resource\<close> between the assignment
  of the final status and the \<^verbatim>\<open>except\<close> clause are not in the listing. Following
  steps 5 and 6 of the orchestrator, the assigned status and notes are committed and the
  task returns the provisioner's result.
\<close>

definition provision_resource_finish :: "env \<Rightarrow> world \<Rightarrow> int \<Rightarrow> (ResourceRequest \<Rightarrow> ResourceRequest) \<Rightarrow> result \<Rightarrow> (exn + task_outcome) \<times> world" where
  "provision_resource_finish e w rid assign result =
     (case commit e w rid assign of
        (Some x, w') \<Rightarrow> (Inl x, w')
      | (None, w') \<Rightarrow> (Inr (Finished result), w'))"

text \<open>
  The second part is the rest of the \<^verbatim>\<open>try\<close> block: the log line (the walkthrough
  skips it, the execution trace of the same document shows it), the write of
  \<^verbatim>\<open>provisioning\<close>, the call of the router, and the assignment of the final status and
  notes, followed by \<open>provision_resource_finish\<close>. The row object the provisioner
  receives and the notes are those the task loaded, with the status it assigned.
\<close>

definition provision_resource_try :: "env \<Rightarrow> world \<Rightarrow> int \<Rightarrow> ResourceRequest \<Rightarrow> (exn + task_outcome) \<times> world" where
  "provision_resource_try e w rid request =
     (let w1 = logger w ''Starting provisioning...'' in
      case commit e w1 rid (\<lambda>r. r\<lparr>status := ''provisioning''\<rparr>) of
        (Some x, w2) \<Rightarrow> (Inl x, w2)
      | (None, w2) \<Rightarrow>
          (let request1 = request\<lparr>status := ''provisioning''\<rparr> in
           case provision_by_type e (host w2) request1 of
             (Inl x, h3) \<Rightarrow> (Inl x, w2\<lparr>host := h3\<rparr>)
           | (Inr result, h3) \<Rightarrow>
               (let w3 = w2\<lparr>host := h3\<rparr>;
                    assign =
                      (if success result
                       then (\<lambda>r. r\<lparr>status := ''provisioned'',
                                   admin_notes := Some (notes_or_empty request1 @ nl @ nl
                                     @ ''Provisioned successfully:'' @ nl @ get_output result)\<rparr>)
                       else (\<lambda>r. r\<lparr>status := ''failed'',
                                   admin_notes := Some (notes_or_empty request1 @ nl @ nl
                                     @ ''Provisioning failed:'' @ nl @ get_error result)\<rparr>))
                in provision_resource_finish e w3 rid assign result)))"

text \<open>
  The third part is the \<^verbatim>\<open>except Exception\<close> clause: the row is read again, marked
  \<^verbatim>\<open>failed\<close> and committed, an exception of that commit is swallowed, and the retry
  is raised with a countdown of 60 seconds.
\<close>

definition provision_resource_except :: "env \<Rightarrow> world \<Rightarrow> int \<Rightarrow> exn \<Rightarrow> task_outcome \<times> world" where
  "provision_resource_except e w rid x =
     (let w1 = logger w (''Error provisioning request '' @ str_int rid @ '': '' @ str_exn x);
          w2 = (case rows w1 rid of
                  None \<Rightarrow> w1
                | Some request \<Rightarrow>
                    snd (commit e w1 rid
                          (\<lambda>r. r\<lparr>status := ''failed'',
                                 admin_notes := Some (notes_or_empty request @ nl @ nl
                                   @ ''Provisioning error: '' @ str_exn x)\<rparr>)))
      in (Retry x 60, w2))"

text \<open>The task is declared with \<^verbatim>\<open>max_retries=3\<close>.\<close>

definition provision_resource_max_retries :: nat where
  "provision_resource_max_retries = 3"

definition provision_resource_run :: "env \<Rightarrow> world \<Rightarrow> int \<Rightarrow> ResourceRequest \<Rightarrow> task_outcome \<times> world" where
  "provision_resource_run e w rid request =
     (case provision_resource_try e w rid request of
        (Inr out, w') \<Rightarrow> (out, w')
      | (Inl x, w') \<Rightarrow> provision_resource_except e w' rid x)"

definition provision_resource :: "env \<Rightarrow> world \<Rightarrow> int \<Rightarrow> task_outcome \<times> world" where
  "provision_resource e w rid =
     (case provision_resource_check e w rid of
        (Return out, w') \<Rightarrow> (out, w')
      | (Proceed request, w') \<Rightarrow> provision_resource_run e w' rid request)"

subsection \<open>The destroy task\<close>






subsection \<open>Vocabulary of the statements\<close>


text \<open>
  The call of the router as \<^verbatim>\<open>provision_resource\<close> makes it: after the log line, on
  the request object whose status has been set to \<^verbatim>\<open>provisioning\<close>.
\<close>

definition routed :: "env \<Rightarrow> world \<Rightarrow> ResourceRequest \<Rightarrow> (exn + result) \<times> host" where
  "routed e w request =
     provision_by_type e (host (logger w ''Starting provisioning...''))
       (request\<lparr>status := ''provisioning''\<rparr>)"

text \<open>The two f-strings of the normal path and the f-string of the handler.\<close>

definition final_notes :: "ResourceRequest \<Rightarrow> result \<Rightarrow> string" where
  "final_notes request res =
     (if success res
      then notes_or_empty request @ nl @ nl @ ''Provisioned successfully:'' @ nl @ get_output res
      else notes_or_empty request @ nl @ nl @ ''Provisioning failed:'' @ nl @ get_error res)"

definition error_notes :: "ResourceRequest \<Rightarrow> exn \<Rightarrow> string" where
  "error_notes request x = notes_or_empty request @ nl @ nl @ ''Provisioning error: '' @ str_exn x"

text \<open>Reading a decimal numeral back, the inverse of \<open>str_nat\<close> and \<open>str_int\<close>.\<close>

definition digit_val :: "char \<Rightarrow> nat" where
  "digit_val c = of_char c - 48"

definition parse_nat :: "string \<Rightarrow> nat" where
  "parse_nat s = foldl (\<lambda>a c. 10 * a + digit_val c) 0 s"

definition parse_int :: "string \<Rightarrow> int" where
  "parse_int s =
     (case s of
        [] \<Rightarrow> 0
      | c # cs \<Rightarrow> if c = CHR ''-'' then - int (parse_nat cs) else int (parse_nat s))"

subsection \<open>Concrete runs\<close>

text \<open>
  An installation under \<^verbatim>\<open>/app\<close> in dry-run mode, with a tool that always succeeds
  and prints \<^verbatim>\<open>ok\<close>, no faults, and provisioners for the other two types that succeed
  without touching the host.
\<close>

definition env0 :: env where
  "env0 = \<lparr>BASE_DIR = ''/app'', DRY_RUN_MODE = True,
           terraform = (\<lambda>_ _ _. Completed 0 ''ok'' []),
           fs_fault = (\<lambda>_. None), commit_fault = (\<lambda>_. None),
           provision_s3 = (\<lambda>h _. (Inr (Success []), h)),
           provision_k8s_namespace = (\<lambda>h _. (Inr (Success []), h)),
           provider_tf_other = (\<lambda>_. []), main_tf_elided = [], tfvars_elided = (\<lambda>_. []),
           format_outputs = (\<lambda>_. None), output_fallback = Success [],
           destroy_failure_note = (\<lambda>s. s)\<rparr>"







text \<open>
  The file system turns read-only after the first commit: that commit is accepted, every
  later write to the file system or the database raises.
\<close>

definition env_readonly :: env where
  "env_readonly =
     env0\<lparr>fs_fault := (\<lambda>_. Some (Exception ''[Errno 30] Read-only file system'')),
          commit_fault := (\<lambda>n. if n = 0 then None
                                else Some (Exception ''attempt to write a readonly database''))\<rparr>"

definition host0 :: host where
  "host0 = \<lparr>dirs = {}, files = Map.empty, invocations = [], log = []\<rparr>"

definition request0 :: ResourceRequest where
  "request0 = \<lparr>request_id = 7, name = ''testdb'', resource_type = ''database'',
               config = None, status = ''approved'', admin_notes = None\<rparr>"

definition world0 :: world where
  "world0 = \<lparr>rows = [7 \<mapsto> request0], commits = 0, host = host0\<rparr>"

text \<open>Request 7 after a successful provisioning, with its workspace on disk.\<close>

definition world_provisioned :: world where
  "world_provisioned =
     \<lparr>rows = [7 \<mapsto> request0\<lparr>status := ''provisioned''\<rparr>], commits = 0,
      host = host0\<lparr>dirs := {''/app/terraform/workspaces/request-7''},
                   files := [''/app/terraform/workspaces/request-7/main.tf'' \<mapsto> ''module'']\<rparr>\<rparr>"

section \<open>Properties\<close>

subsection \<open>The workspace path\<close>

lemma digit_val_digit_char: "d < 10 \<Longrightarrow> digit_val (digit_char d) = d"
  by (simp add: digit_val_def digit_char_def)

lemma parse_nat_snoc: "parse_nat (s @ [c]) = 10 * parse_nat s + digit_val c"
  by (simp add: parse_nat_def)

lemma parse_nat_str_nat: "parse_nat (str_nat n) = n"
proof (induction n rule: str_nat.induct)
  case (1 n)
  show ?case
  proof (cases "n < 10")
    case True
    then show ?thesis
      by (subst str_nat.simps) (simp add: parse_nat_def digit_val_digit_char)
  next
    case False
    with 1 have "parse_nat (str_nat (n div 10)) = n div 10" by simp
    with False show ?thesis
      by (subst str_nat.simps) (simp add: parse_nat_snoc digit_val_digit_char)
  qed
qed

lemma digit_char_not_minus: "d < 10 \<Longrightarrow> digit_char d \<noteq> CHR ''-''"
proof
  assume d: "d < 10" and eq: "digit_char d = CHR ''-''"
  from eq have "of_char (digit_char d) = (of_char (CHR ''-'') :: nat)" by simp
  with d show False by (simp add: digit_char_def)
qed

lemma str_nat_hd: "\<exists>d cs. d < 10 \<and> str_nat n = digit_char d # cs"
proof (induction n rule: str_nat.induct)
  case (1 n)
  show ?case
  proof (cases "n < 10")
    case True
    then show ?thesis by (subst str_nat.simps) auto
  next
    case False
    with 1 obtain d cs where "d < 10" "str_nat (n div 10) = digit_char d # cs" by blast
    with False show ?thesis by (subst str_nat.simps) auto
  qed
qed

lemma parse_int_str_int: "parse_int (str_int i) = i"
proof (cases "i < 0")
  case True
  then show ?thesis by (simp add: str_int_def parse_int_def parse_nat_str_nat)
next
  case False
  obtain d cs where d: "d < 10" and s: "str_nat (nat i) = digit_char d # cs"
    using str_nat_hd by blast
  have "parse_nat (digit_char d # cs) = nat i"
    using parse_nat_str_nat [of "nat i"] s by simp
  with False d s show ?thesis
    by (simp add: str_int_def parse_int_def digit_char_not_minus)
qed

lemma str_int_inj: "str_int i = str_int j \<Longrightarrow> i = j"
  by (metis parse_int_str_int)

lemma path_join_relative:
  "b \<noteq> [] \<Longrightarrow> hd b \<noteq> CHR ''/'' \<Longrightarrow>
   path_join a b = (if a = [] \<or> last a = CHR ''/'' then a else a @ ''/'') @ b"
  by (simp add: path_join_def)

lemma workspace_path_eq:
  "workspace_path e rid =
     (if TERRAFORM_WORKSPACES_PATH e = [] \<or> last (TERRAFORM_WORKSPACES_PATH e) = CHR ''/''
      then TERRAFORM_WORKSPACES_PATH e else TERRAFORM_WORKSPACES_PATH e @ ''/'')
     @ ''request-'' @ str_int rid"
  unfolding workspace_path_def by (subst path_join_relative) simp_all

lemma workspace_path_inj: "workspace_path e i = workspace_path e j \<Longrightarrow> i = j"
  by (auto simp: workspace_path_eq dest: str_int_inj)

lemma create_workspace_ok:
  "fs_fault e (workspace_path e rid) = None \<Longrightarrow>
   create_workspace e h rid t =
     (Inr (workspace_path e rid), h\<lparr>dirs := insert (workspace_path e rid) (dirs h)\<rparr>)"
  by (simp add: create_workspace_def makedirs_def Let_def)

lemma str_int_7: "str_int 7 = ''7''"
  by code_simp

lemma workspace_path_env0_7: "workspace_path env0 7 = ''/app/terraform/workspaces/request-7''"
  by (simp add: workspace_path_def TERRAFORM_WORKSPACES_PATH_def path_join_def env0_def str_int_7)


text \<open>
  C10. When the creation of the directory does not raise, \<^verbatim>\<open>_create_workspace\<close>
  returns the path \<open>workspace_path e rid\<close>, whatever the state of the host and the
  resource type given; a second call on the state left by the first returns the same
  path and leaves that state as it is; the path starts with the workspaces root; and the
  paths of two different request ids differ.
\<close>

theorem create_workspace_deterministic:
  assumes "fs_fault e (workspace_path e rid) = None"
  shows "create_workspace e h rid t =
           (Inr (workspace_path e rid), h\<lparr>dirs := insert (workspace_path e rid) (dirs h)\<rparr>)
       \<and> create_workspace e (snd (create_workspace e h rid t)) rid t' =
           (Inr (workspace_path e rid), snd (create_workspace e h rid t))
       \<and> take (length (TERRAFORM_WORKSPACES_PATH e)) (workspace_path e rid) =
           TERRAFORM_WORKSPACES_PATH e
       \<and> (\<forall>rid'. rid' \<noteq> rid \<longrightarrow> workspace_path e rid' \<noteq> workspace_path e rid)"
proof (intro conjI)
  show "create_workspace e h rid t =
          (Inr (workspace_path e rid), h\<lparr>dirs := insert (workspace_path e rid) (dirs h)\<rparr>)"
    using assms by (rule create_workspace_ok)
  show "create_workspace e (snd (create_workspace e h rid t)) rid t' =
          (Inr (workspace_path e rid), snd (create_workspace e h rid t))"
    using assms by (simp add: create_workspace_ok)
  show "take (length (TERRAFORM_WORKSPACES_PATH e)) (workspace_path e rid) =
          TERRAFORM_WORKSPACES_PATH e"
    by (simp add: workspace_path_eq)
  show "\<forall>rid'. rid' \<noteq> rid \<longrightarrow> workspace_path e rid' \<noteq> workspace_path e rid"
    by (blast dest: workspace_path_inj)
qed

text \<open>
  Request 7 under \<^verbatim>\<open>/app\<close>: the directory is created, the second call changes
  nothing, and request 8 has another path.
\<close>

theorem create_workspace_deterministic_witness:
  "fs_fault env0 (workspace_path env0 7) = None
   \<and> create_workspace env0 host0 7 ''database'' =
       (Inr ''/app/terraform/workspaces/request-7'',
        host0\<lparr>dirs := insert ''/app/terraform/workspaces/request-7'' (dirs host0)\<rparr>)
   \<and> create_workspace env0 (snd (create_workspace env0 host0 7 ''database'')) 7 ''database'' =
       (Inr ''/app/terraform/workspaces/request-7'', snd (create_workspace env0 host0 7 ''database''))
   \<and> workspace_path env0 8 \<noteq> workspace_path env0 7"
proof -
  have f: "fs_fault env0 (workspace_path env0 7) = None" by (simp add: env0_def)
  note t = create_workspace_deterministic [OF f, of host0 "''database''" "''database''"]
  from t have a: "create_workspace env0 host0 7 ''database'' =
      (Inr (workspace_path env0 7), host0\<lparr>dirs := insert (workspace_path env0 7) (dirs host0)\<rparr>)"
    by (rule conjunct1)
  from t have b:
    "create_workspace env0 (snd (create_workspace env0 host0 7 ''database'')) 7 ''database'' =
      (Inr (workspace_path env0 7), snd (create_workspace env0 host0 7 ''database''))"
    by blast
  from t have c: "workspace_path env0 8 \<noteq> workspace_path env0 7" by simp
  from f a b c show ?thesis unfolding workspace_path_env0_7 by blast
qed

subsection \<open>The router\<close>

text \<open>
  C5, as stated, fails: a request of type \<^verbatim>\<open>object_storage\<close> gets the router's
  unknown-type error. The types the router knows are \<^verbatim>\<open>database\<close>, \<^verbatim>\<open>s3\<close> and
  \<^verbatim>\<open>k8s_namespace\<close>.
\<close>

theorem provision_by_type_object_storage_counterexample:
  "provision_by_type env0 host0 (request0\<lparr>resource_type := ''object_storage''\<rparr>) =
     (Inr (Failure ''Unknown resource type: object_storage''), host0)"
  by (simp add: provision_by_type_def Let_def request0_def)

text \<open>
  C5, amended. For every request whose resource type is \<^verbatim>\<open>database\<close>, \<^verbatim>\<open>s3\<close> or
  \<^verbatim>\<open>k8s_namespace\<close>, the router does exactly what the provisioner of that type does
  on the same host and request; in particular it does not produce its own unknown-type
  error.
\<close>

theorem provision_by_type_dispatch:
  "(resource_type request = ''database'' \<longrightarrow>
      provision_by_type e h request = provision_database e h request)
 \<and> (resource_type request = ''s3'' \<longrightarrow>
      provision_by_type e h request = provision_s3 e h request)
 \<and> (resource_type request = ''k8s_namespace'' \<longrightarrow>
      provision_by_type e h request = provision_k8s_namespace e h request)"
  by (simp add: provision_by_type_def Let_def)

text \<open>One request of each of the three types.\<close>

theorem provision_by_type_dispatch_witness:
  "provision_by_type env0 host0 request0 = provision_database env0 host0 request0
 \<and> provision_by_type env0 host0 (request0\<lparr>resource_type := ''s3''\<rparr>) = (Inr (Success []), host0)
 \<and> provision_by_type env0 host0 (request0\<lparr>resource_type := ''k8s_namespace''\<rparr>) =
     (Inr (Success []), host0)"
  using provision_by_type_dispatch [of request0 env0 host0]
    provision_by_type_dispatch [of "request0\<lparr>resource_type := ''s3''\<rparr>" env0 host0]
    provision_by_type_dispatch [of "request0\<lparr>resource_type := ''k8s_namespace''\<rparr>" env0 host0]
  by (simp add: request0_def env0_def)

text \<open>
  C6. For every request whose resource type is none of the three the router knows, the
  router returns a failure whose error is \<^verbatim>\<open>Unknown resource type: \<close> followed by the
  type, and returns the host as it received it: no directory, no file, no call of the
  tool, no log line.
\<close>

theorem provision_by_type_unknown:
  assumes "resource_type request \<notin> {''database'', ''s3'', ''k8s_namespace''}"
  shows "provision_by_type e h request =
           (Inr (Failure (''Unknown resource type: '' @ resource_type request)), h)"
  using assms by (simp add: provision_by_type_def Let_def)

text \<open>The request of type \<^verbatim>\<open>unknown_type\<close>.\<close>

theorem provision_by_type_unknown_witness:
  "resource_type (request0\<lparr>resource_type := ''unknown_type''\<rparr>)
     \<notin> {''database'', ''s3'', ''k8s_namespace''}
   \<and> provision_by_type env0 host0 (request0\<lparr>resource_type := ''unknown_type''\<rparr>) =
     (Inr (Failure ''Unknown resource type: unknown_type''), host0)"
proof -
  have a: "resource_type (request0\<lparr>resource_type := ''unknown_type''\<rparr>)
             \<notin> {''database'', ''s3'', ''k8s_namespace''}"
    by simp
  from a provision_by_type_unknown [OF a, of env0 host0] show ?thesis by simp
qed


subsection \<open>Running the tool\<close>











subsection \<open>The provisioning task\<close>

lemma logger_simps:
  "rows (logger w l) = rows w" "commits (logger w l) = commits w"
  "dirs (host (logger w l)) = dirs (host w)" "files (host (logger w l)) = files (host w)"
  "invocations (host (logger w l)) = invocations (host w)"
  "log (host (logger w l)) = log (host w) @ [l]"
  by (simp_all add: logger_def)

lemma notes_or_empty_status [simp]:
  "notes_or_empty (request\<lparr>status := s\<rparr>) = notes_or_empty request"
  by (simp add: notes_or_empty_def)

lemma provision_resource_skip:
  "rows w rid = Some request \<Longrightarrow> status request \<noteq> ''approved'' \<Longrightarrow>
   provision_resource e w rid =
     (Returned ''skipped'' ''Request not approved'',
      logger w (''Request '' @ str_int rid @ '' is not approved, skipping''))"
  by (simp add: provision_resource_def provision_resource_check_def)


lemma provision_resource_approved:
  "rows w rid = Some request \<Longrightarrow> status request = ''approved'' \<Longrightarrow>
   provision_resource e w rid = provision_resource_run e w rid request"
  by (simp add: provision_resource_def provision_resource_check_def)

text \<open>
  C3. For every request whose status is not \<^verbatim>\<open>approved\<close>, \<^verbatim>\<open>provision_resource\<close>
  returns the skipped outcome, and afterwards every row of the table (status and notes
  included), the number of commits, the directories, the files and the list of calls of
  the tool are what they were before.
\<close>

theorem provision_resource_not_approved:
  assumes "rows w rid = Some request" and "status request \<noteq> ''approved''"
  shows "fst (provision_resource e w rid) = Returned ''skipped'' ''Request not approved''
       \<and> rows (snd (provision_resource e w rid)) = rows w
       \<and> commits (snd (provision_resource e w rid)) = commits w
       \<and> dirs (host (snd (provision_resource e w rid))) = dirs (host w)
       \<and> files (host (snd (provision_resource e w rid))) = files (host w)
       \<and> invocations (host (snd (provision_resource e w rid))) = invocations (host w)"
  using assms by (simp add: provision_resource_skip logger_simps)

text \<open>Request 7, already provisioned.\<close>

theorem provision_resource_not_approved_witness:
  "rows world_provisioned 7 = Some (request0\<lparr>status := ''provisioned''\<rparr>)
   \<and> status (request0\<lparr>status := ''provisioned''\<rparr>) \<noteq> ''approved''
   \<and> fst (provision_resource env0 world_provisioned 7) = Returned ''skipped'' ''Request not approved''
   \<and> rows (snd (provision_resource env0 world_provisioned 7)) 7 =
       Some (request0\<lparr>status := ''provisioned''\<rparr>)
   \<and> dirs (host (snd (provision_resource env0 world_provisioned 7))) =
       {''/app/terraform/workspaces/request-7''}
   \<and> invocations (host (snd (provision_resource env0 world_provisioned 7))) = []"
proof -
  let ?r = "request0\<lparr>status := ''provisioned''\<rparr>"
  have a: "rows world_provisioned 7 = Some ?r" by (simp add: world_provisioned_def)
  have b: "status ?r \<noteq> ''approved''" by simp
  from a b provision_resource_not_approved [OF a b, of env0] show ?thesis
    by (simp add: world_provisioned_def host0_def)
qed


lemmas attempt_defs =
  provision_resource_run_def provision_resource_try_def provision_resource_finish_def
  provision_resource_except_def commit_def logger_def Let_def


lemma run_generator_raises:
  assumes "rows w rid = Some request" and "commit_fault e (commits w) = None"
    and "routed e w request = (Inl x, h3)"
  shows "fst (provision_resource_run e w rid request) = Retry x 60"
    and "commit_fault e (Suc (commits w)) = None \<Longrightarrow>
         rows (snd (provision_resource_run e w rid request)) rid =
           Some (request\<lparr>status := ''failed'', admin_notes := Some (error_notes request x)\<rparr>)"
    and "commit_fault e (Suc (commits w)) \<noteq> None \<Longrightarrow>
         rows (snd (provision_resource_run e w rid request)) rid =
           Some (request\<lparr>status := ''provisioning''\<rparr>)"
  using assms by (auto simp: attempt_defs error_notes_def routed_def)

lemma run_generator_returns:
  assumes "rows w rid = Some request" and "commit_fault e (commits w) = None"
    and "routed e w request = (Inr res, h3)"
  shows "commit_fault e (Suc (commits w)) = None \<Longrightarrow>
         fst (provision_resource_run e w rid request) = Finished res \<and>
         rows (snd (provision_resource_run e w rid request)) rid =
           Some (request\<lparr>status := (if success res then ''provisioned'' else ''failed''),
                         admin_notes := Some (final_notes request res)\<rparr>)"
    and "commit_fault e (Suc (commits w)) = Some x \<Longrightarrow>
         fst (provision_resource_run e w rid request) = Retry x 60"
    and "commit_fault e (Suc (commits w)) = Some x \<Longrightarrow>
         commit_fault e (Suc (Suc (commits w))) = None \<Longrightarrow>
         rows (snd (provision_resource_run e w rid request)) rid =
           Some (request\<lparr>status := ''failed'',  admin_notes := Some (error_notes request x)\<rparr>)"
    and "commit_fault e (Suc (commits w)) = Some x \<Longrightarrow>
         commit_fault e (Suc (Suc (commits w))) \<noteq> None \<Longrightarrow>
         rows (snd (provision_resource_run e w rid request)) rid =
           Some (request\<lparr>status := ''provisioning''\<rparr>)"
  using assms by (auto simp: attempt_defs error_notes_def final_notes_def routed_def)

lemma claimed_status:
  assumes "rows w rid = Some request" and "commit_fault e (commits w) = None"
  shows "\<exists>r'. rows (snd (provision_resource_run e w rid request)) rid = Some r'
            \<and> status r' \<in> {''provisioning'', ''provisioned'', ''failed''}
            \<and> (commit_fault e (Suc (commits w)) = None \<longrightarrow>
                 status r' \<in> {''provisioned'', ''failed''})
            \<and> (\<forall>res. fst (provision_resource_run e w rid request) = Finished res \<longrightarrow>
                  status r' = (if success res then ''provisioned'' else ''failed''))"
proof -
  obtain g h3 where g: "routed e w request = (g, h3)" by (cases "routed e w request")
  show ?thesis
  proof (cases g)
    case (Inl x)
    with g have r: "routed e w request = (Inl x, h3)" by simp
    show ?thesis
    proof (cases "commit_fault e (Suc (commits w)) = None")
      case True
      with run_generator_raises(1,2) [OF assms r] show ?thesis by simp
    next
      case False
      with run_generator_raises(1,3) [OF assms r] show ?thesis by simp
    qed
  next
    case (Inr res)
    with g have r: "routed e w request = (Inr res, h3)" by simp
    show ?thesis
    proof (cases "commit_fault e (Suc (commits w))")
      case None
      with run_generator_returns(1) [OF assms r] show ?thesis by simp
    next
      case (Some x)
      show ?thesis
      proof (cases "commit_fault e (Suc (Suc (commits w))) = None")
        case True
        with Some run_generator_returns(2,3) [OF assms r] show ?thesis by simp
      next
        case False
        with Some run_generator_returns(2,4) [OF assms r] show ?thesis by simp
      qed
    qed
  qed
qed




text \<open>The definitions a concrete run unfolds.\<close>

lemmas run_defs =
  provision_resource_def provision_resource_check_def attempt_defs
  provision_by_type_def provision_database_def create_workspace_def makedirs_def
  write_provider_config_def write_file_def run_terraform_workflow_def run_terraform_def
  workspace_path_def TERRAFORM_WORKSPACES_PATH_def path_join_def str_int_7 py_bool_def



text \<open>
  C1, as stated, fails. The check of the status and the write of \<^verbatim>\<open>provisioning\<close> are
  two operations on the store, and the write is keyed by the id alone. Two workers read
  request 7 one after the other, before either writes: both find it \<^verbatim>\<open>approved\<close>. The
  first then runs the rest of the task, the second runs it after the first has finished:
  the second is not skipped, it finishes like the first, and the tool has run
  \<^verbatim>\<open>init\<close> and \<^verbatim>\<open>plan\<close> twice in the same workspace.
\<close>

theorem provision_race_counterexample:
  "provision_resource_check env0 world0 7 = (Proceed request0, world0)
 \<and> fst (provision_resource_run env0 world0 7 request0) =
     Finished (Success (''[DRY RUN] Plan completed successfully.'' @ nl
       @ ''Workspace: /app/terraform/workspaces/request-7'' @ nl @ nl @ ''Plan output:'' @ nl @ ''ok''))
 \<and> fst (provision_resource_run env0 (snd (provision_resource_run env0 world0 7 request0)) 7 request0) =
     Finished (Success (''[DRY RUN] Plan completed successfully.'' @ nl
       @ ''Workspace: /app/terraform/workspaces/request-7'' @ nl @ nl @ ''Plan output:'' @ nl @ ''ok''))
 \<and> invocations (host (snd (provision_resource_run env0
        (snd (provision_resource_run env0 world0 7 request0)) 7 request0))) =
     [(''/app/terraform/workspaces/request-7'', [''terraform'', ''init'', ''-no-color'']),
      (''/app/terraform/workspaces/request-7'', [''terraform'', ''plan'', ''-no-color'', ''-out=tfplan'']),
      (''/app/terraform/workspaces/request-7'', [''terraform'', ''init'', ''-no-color'']),
      (''/app/terraform/workspaces/request-7'', [''terraform'', ''plan'', ''-no-color'', ''-out=tfplan''])]"
  by (simp add: run_defs world0_def request0_def env0_def host0_def)

text \<open>
  C1, amended. When runs of \<^verbatim>\<open>provision_resource\<close> on one request id follow one
  another, each finishing before the next starts, at most one of them claims the request:
  once a run has found the request \<^verbatim>\<open>approved\<close> and its write of \<^verbatim>\<open>provisioning\<close> has
  been accepted, the next run on that id returns the skipped outcome with the message
  \<^verbatim>\<open>Request not approved\<close>, and changes no row, directory or file and calls no tool.
\<close>

theorem claim_excludes_later_attempts:
  assumes "rows w rid = Some request" and "status request = ''approved''"
    and "commit_fault e (commits w) = None"
  shows "fst (provision_resource e (snd (provision_resource e w rid)) rid) =
           Returned ''skipped'' ''Request not approved''
       \<and> rows (snd (provision_resource e (snd (provision_resource e w rid)) rid)) =
           rows (snd (provision_resource e w rid))
       \<and> invocations (host (snd (provision_resource e (snd (provision_resource e w rid)) rid))) =
           invocations (host (snd (provision_resource e w rid)))
       \<and> dirs (host (snd (provision_resource e (snd (provision_resource e w rid)) rid))) =
           dirs (host (snd (provision_resource e w rid)))
       \<and> files (host (snd (provision_resource e (snd (provision_resource e w rid)) rid))) =
           files (host (snd (provision_resource e w rid)))"
proof -
  let ?w' = "snd (provision_resource e w rid)"
  from claimed_status [OF assms(1,3)] provision_resource_approved [OF assms(1,2), of e]
  obtain r' where r: "rows ?w' rid = Some r'"
    and s: "status r' \<in> {''provisioning'', ''provisioned'', ''failed''}"
    by auto
  from s have n: "status r' \<noteq> ''approved''" by auto
  from provision_resource_skip [OF r n, of e] show ?thesis by (simp add: logger_simps)
qed

text \<open>Request 7, provisioned by the first run and skipped by the second.\<close>

theorem claim_excludes_later_attempts_witness:
  "rows world0 7 = Some request0 \<and> status request0 = ''approved''
   \<and> commit_fault env0 (commits world0) = None
   \<and> fst (provision_resource env0 (snd (provision_resource env0 world0 7)) 7) =
       Returned ''skipped'' ''Request not approved''
   \<and> invocations (host (snd (provision_resource env0 (snd (provision_resource env0 world0 7)) 7))) =
       invocations (host (snd (provision_resource env0 world0 7)))"
proof -
  have a: "rows world0 7 = Some request0" by (simp add: world0_def)
  have b: "status request0 = ''approved''" by (simp add: request0_def)
  have c: "commit_fault env0 (commits world0) = None" by (simp add: env0_def)
  from a b c claim_excludes_later_attempts [OF a b c] show ?thesis by simp
qed

text \<open>
  C4, as stated, fails. The file system turns read-only after the write of
  \<^verbatim>\<open>provisioning\<close> has been accepted: creating the workspace raises, and the commit in
  the handler raises too and is swallowed. The run ends with the retry exception and the
  request is left at \<^verbatim>\<open>provisioning\<close>; the run that the retry starts finds a request
  that is not \<^verbatim>\<open>approved\<close> and skips it, so the request stays there.
\<close>

theorem stuck_provisioning_counterexample:
  "rows world0 7 = Some request0 \<and> status request0 = ''approved''
   \<and> commit_fault env_readonly (commits world0) = None
   \<and> fst (provision_resource env_readonly world0 7) =
       Retry (Exception ''[Errno 30] Read-only file system'') 60
   \<and> rows (snd (provision_resource env_readonly world0 7)) 7 =
       Some (request0\<lparr>status := ''provisioning''\<rparr>)
   \<and> fst (provision_resource env_readonly (snd (provision_resource env_readonly world0 7)) 7) =
       Returned ''skipped'' ''Request not approved''
   \<and> rows (snd (provision_resource env_readonly
                  (snd (provision_resource env_readonly world0 7)) 7)) 7 =
       Some (request0\<lparr>status := ''provisioning''\<rparr>)"
  by (simp add: run_defs world0_def request0_def env_readonly_def env0_def host0_def)

text \<open>
  C4, amended. For every approved request whose write of \<^verbatim>\<open>provisioning\<close> is accepted,
  the run leaves the request at \<^verbatim>\<open>provisioning\<close>, \<^verbatim>\<open>provisioned\<close> or \<^verbatim>\<open>failed\<close>;
  when the store accepts the next commit of the run (that of the final status, or that
  of the handler when the provisioner raised) the request is left at \<^verbatim>\<open>provisioned\<close>
  or \<^verbatim>\<open>failed\<close>; and a run that returns normally leaves it at \<^verbatim>\<open>provisioned\<close> when
  the result is a success and at \<^verbatim>\<open>failed\<close> otherwise.
\<close>

theorem claimed_request_terminal_status:
  assumes "rows w rid = Some request" and "status request = ''approved''"
    and "commit_fault e (commits w) = None"
  shows "\<exists>r'. rows (snd (provision_resource e w rid)) rid = Some r'
            \<and> status r' \<in> {''provisioning'', ''provisioned'', ''failed''}
            \<and> (commit_fault e (Suc (commits w)) = None \<longrightarrow>
                 status r' \<in> {''provisioned'', ''failed''})
            \<and> (\<forall>res. fst (provision_resource e w rid) = Finished res \<longrightarrow>
                  status r' = (if success res then ''provisioned'' else ''failed''))"
  using claimed_status [OF assms(1,3)] provision_resource_approved [OF assms(1,2), of e]
  by simp

text \<open>Request 7 with a store that accepts every commit.\<close>

theorem claimed_request_terminal_status_witness:
  "rows world0 7 = Some request0 \<and> status request0 = ''approved''
   \<and> commit_fault env0 (commits world0) = None
   \<and> commit_fault env0 (Suc (commits world0)) = None
   \<and> (\<exists>r'. rows (snd (provision_resource env0 world0 7)) 7 = Some r'
            \<and> status r' \<in> {''provisioned'', ''failed''})"
proof -
  have a: "rows world0 7 = Some request0" by (simp add: world0_def)
  have b: "status request0 = ''approved''" by (simp add: request0_def)
  have c: "commit_fault env0 (commits world0) = None" by (simp add: env0_def)
  have d: "commit_fault env0 (Suc (commits world0)) = None" by (simp add: env0_def)
  from claimed_request_terminal_status [OF a b c] d
  have "\<exists>r'. rows (snd (provision_resource env0 world0 7)) 7 = Some r'
            \<and> status r' \<in> {''provisioned'', ''failed''}" by blast
  with a b c d show ?thesis by blast
qed





subsection \<open>The destroy task\<close>









subsection \<open>The generated secret\<close>

text \<open>
  What the text of \<^verbatim>\<open>_generate_password\<close> determines, for every entropy source: the
  length of the secret is the length asked for, 16 by default, and each of its characters
  is one of the 62 letters and digits.
\<close>

lemma length_alphabet: "length alphabet = 62"
  by (simp add: alphabet_def ascii_letters_def ascii_lowercase_def ascii_uppercase_def digits_def)

lemma generate_password_length: "length (generate_password rand n) = n"
  by (simp add: generate_password_def)

lemma generate_password_alphabet: "set (generate_password rand n) \<subseteq> set alphabet"
  using length_alphabet by (auto simp: generate_password_def choice_def)

lemma generate_password_default:
  "length (generate_password rand default_password_length) = 16"
  by (simp add: generate_password_length default_password_length_def)

end
